theory Spec2Isabelle
  imports Complex_Main
begin

section \<open>Numbers and failures\<close>

text \<open>
  The module \<open>dynamic_models.py\<close> computes with double-precision floats inside functions
  compiled by \<open>numba.njit\<close>. The model computes with real numbers: rounding, infinities
  and NaN are outside of it. What is kept is the control flow and the failures of the
  code: under the default error model of \<open>njit\<close> (the one of Python), a division whose
  divisor is zero raises \<open>ZeroDivisionError\<close>, and reading a sequence past its end
  raises \<open>IndexError\<close>. A call therefore returns either a failure (\<open>Inl\<close>) or a
  value (\<open>Inr\<close>).
\<close>

datatype exn = ZeroDivisionError | IndexError

definition ebind :: "exn + 'a \<Rightarrow> ('a \<Rightarrow> exn + 'b) \<Rightarrow> exn + 'b" where
  "ebind r k = (case r of Inl e \<Rightarrow> Inl e | Inr v \<Rightarrow> k v)"

definition fdiv :: "real \<Rightarrow> real \<Rightarrow> exn + real" where
  "fdiv a b = (if b = 0 then Inl ZeroDivisionError else Inr (a / b))"

definition item :: "'a list \<Rightarrow> nat \<Rightarrow> exn + 'a" where
  "item xs i = (if i < length xs then Inr (xs ! i) else Inl IndexError)"

section \<open>Actuator constraints\<close>

text \<open>
  \<open>accl_constraints\<close>: the positive limit is computed first (with its division by the
  velocity), then the chain \<open>if / elif / elif\<close> picks the result.
\<close>

definition accl_constraints ::
  "real \<Rightarrow> real \<Rightarrow> real \<Rightarrow> real \<Rightarrow> real \<Rightarrow> real \<Rightarrow> exn + real" where
  "accl_constraints vel accl v_switch a_max v_min v_max =
     ebind (if vel > v_switch then fdiv (a_max * v_switch) vel else Inr a_max)
       (\<lambda>pos_limit.
          Inr (if (vel \<le> v_min \<and> accl \<le> 0) \<or> (vel \<ge> v_max \<and> accl \<ge> 0) then 0
               else if accl \<le> - a_max then - a_max
               else if accl \<ge> pos_limit then pos_limit
               else accl))"

text \<open>
  \<open>steering_constraint\<close> has no division and reads no sequence: it is a total function
  on the reals.
\<close>

definition steering_constraint ::
  "real \<Rightarrow> real \<Rightarrow> real \<Rightarrow> real \<Rightarrow> real \<Rightarrow> real \<Rightarrow> real" where
  "steering_constraint steering_angle steering_velocity s_min s_max sv_min sv_max =
     (if (steering_angle \<le> s_min \<and> steering_velocity \<le> 0)
          \<or> (steering_angle \<ge> s_max \<and> steering_velocity \<ge> 0) then 0
      else if steering_velocity \<le> sv_min then sv_min
      else if steering_velocity \<ge> sv_max then sv_max
      else steering_velocity)"

section \<open>Kinematic single-track model\<close>

text \<open>
  \<open>vehicle_dynamics_ks\<close> keeps the positional parameters of the source, also the ones
  it never reads (\<open>mu\<close>, \<open>C_Sf\<close>, \<open>C_Sr\<close>, \<open>h\<close>, \<open>m\<close>, \<open>I\<close>). The reads of \<open>x\<close> and
  \<open>u_init\<close> and the division by the wheelbase come in the order of the source.
\<close>

definition vehicle_dynamics_ks ::
  "real list \<Rightarrow> real list \<Rightarrow> real \<Rightarrow> real \<Rightarrow> real \<Rightarrow> real \<Rightarrow> real \<Rightarrow> real \<Rightarrow> real \<Rightarrow> real
     \<Rightarrow> real \<Rightarrow> real \<Rightarrow> real \<Rightarrow> real \<Rightarrow> real \<Rightarrow> real \<Rightarrow> real \<Rightarrow> real \<Rightarrow> exn + real list" where
  "vehicle_dynamics_ks x u_init mu C_Sf C_Sr lf lr h m I s_min s_max sv_min sv_max
       v_switch a_max v_min v_max =
     (let lwb = lf + lr in
      ebind (item x 2) (\<lambda>x2.
      ebind (item u_init 0) (\<lambda>ui0.
      let u0 = steering_constraint x2 ui0 s_min s_max sv_min sv_max in
      ebind (item x 3) (\<lambda>x3.
      ebind (item u_init 1) (\<lambda>ui1.
      ebind (accl_constraints x3 ui1 v_switch a_max v_min v_max) (\<lambda>u1.
      ebind (item x 4) (\<lambda>x4.
      ebind (fdiv x3 lwb) (\<lambda>q.
      Inr [x3 * cos x4, x3 * sin x4, u0, u1, q * tan x2]))))))))"

section \<open>Dynamic single-track model\<close>

text \<open>
  Below the threshold \<open>0.5\<close> the function calls \<open>vehicle_dynamics_ks\<close> on the slice
  \<open>x[0:5]\<close> with the control it has already constrained, and appends the yaw
  acceleration of the kinematic relation and \<open>0\<close>. Otherwise it evaluates the seven
  expressions of the single-track model; their six divisions are taken in the order in
  which Python evaluates them.
\<close>

definition vehicle_dynamics_st ::
  "real list \<Rightarrow> real list \<Rightarrow> real \<Rightarrow> real \<Rightarrow> real \<Rightarrow> real \<Rightarrow> real \<Rightarrow> real \<Rightarrow> real \<Rightarrow> real
     \<Rightarrow> real \<Rightarrow> real \<Rightarrow> real \<Rightarrow> real \<Rightarrow> real \<Rightarrow> real \<Rightarrow> real \<Rightarrow> real \<Rightarrow> exn + real list" where
  "vehicle_dynamics_st x u_init mu C_Sf C_Sr lf lr h m I s_min s_max sv_min sv_max
       v_switch a_max v_min v_max =
     (let g = 981 / 100 in
      ebind (item x 2) (\<lambda>x2.
      ebind (item u_init 0) (\<lambda>ui0.
      let u0 = steering_constraint x2 ui0 s_min s_max sv_min sv_max in
      ebind (item x 3) (\<lambda>x3.
      ebind (item u_init 1) (\<lambda>ui1.
      ebind (accl_constraints x3 ui1 v_switch a_max v_min v_max) (\<lambda>u1.
      if \<bar>x3\<bar> < 1 / 2 then
        (let lwb = lf + lr; x_ks = take 5 x in
         ebind (vehicle_dynamics_ks x_ks [u0, u1] mu C_Sf C_Sr lf lr h m I
                  s_min s_max sv_min sv_max v_switch a_max v_min v_max) (\<lambda>f_ks.
         ebind (fdiv u1 lwb) (\<lambda>q1.
         ebind (fdiv x3 (lwb * (cos x2)\<^sup>2)) (\<lambda>q2.
         Inr (f_ks @ [q1 * tan x2 + q2 * u0, 0])))))
      else
        ebind (item x 6) (\<lambda>x6.
        ebind (item x 4) (\<lambda>x4.
        ebind (item x 5) (\<lambda>x5.
        ebind (fdiv (- mu * m) (x3 * I * (lr + lf))) (\<lambda>d1.
        ebind (fdiv (mu * m) (I * (lr + lf))) (\<lambda>d2.
        ebind (fdiv (mu * m) (I * (lr + lf))) (\<lambda>d3.
        ebind (fdiv mu (x3\<^sup>2 * (lr + lf))) (\<lambda>d4.
        ebind (fdiv mu (x3 * (lr + lf))) (\<lambda>d5.
        ebind (fdiv mu (x3 * (lr + lf))) (\<lambda>d6.
        Inr [x3 * cos (x6 + x4),
             x3 * sin (x6 + x4),
             u0,
             u1,
             x5,
             d1 * (lf\<^sup>2 * C_Sf * (g * lr - u1 * h) + lr\<^sup>2 * C_Sr * (g * lf + u1 * h)) * x5
               + d2 * (lr * C_Sr * (g * lf + u1 * h) - lf * C_Sf * (g * lr - u1 * h)) * x6
               + d3 * lf * C_Sf * (g * lr - u1 * h) * x2,
             (d4 * (C_Sr * (g * lf + u1 * h) * lr - C_Sf * (g * lr - u1 * h) * lf) - 1) * x5
               - d5 * (C_Sr * (g * lf + u1 * h) + C_Sf * (g * lr - u1 * h)) * x6
               + d6 * (C_Sf * (g * lr - u1 * h)) * x2])))))))))))))))"

section \<open>Speed and steering controller\<close>

text \<open>
  \<open>pid\<close> returns the pair \<open>(accl, sv)\<close>. The steering part divides the steering error
  by its absolute value, the speed part divides \<open>max_a\<close> by \<open>max_v\<close> or by \<open>- min_v\<close>.
\<close>

definition pid ::
  "real \<Rightarrow> real \<Rightarrow> real \<Rightarrow> real \<Rightarrow> real \<Rightarrow> real \<Rightarrow> real \<Rightarrow> real \<Rightarrow> exn + (real \<times> real)" where
  "pid speed steer current_speed current_steer max_sv max_a max_v min_v =
     (let steer_diff = steer - current_steer in
      ebind (if \<bar>steer_diff\<bar> > 1 / 10000
             then ebind (fdiv steer_diff \<bar>steer_diff\<bar>) (\<lambda>s. Inr (s * max_sv))
             else Inr 0) (\<lambda>sv.
      let vel_diff = speed - current_speed in
      ebind (if current_speed > 0 then
               (if vel_diff > 0
                then ebind (fdiv (10 * max_a) max_v) (\<lambda>kp. Inr (kp * vel_diff))
                else ebind (fdiv (10 * max_a) (- min_v)) (\<lambda>kp. Inr (kp * vel_diff)))
             else
               (if vel_diff > 0
                then ebind (fdiv (2 * max_a) max_v) (\<lambda>kp. Inr (kp * vel_diff))
                else ebind (fdiv (2 * max_a) (- min_v)) (\<lambda>kp. Inr (kp * vel_diff)))) (\<lambda>accl.
      Inr (accl, sv))))"

section \<open>Multi-body model\<close>

text \<open>
  \<open>vehicle_dynamics_mb\<close> reads names that the module never binds: the parameter object
  \<open>p\<close>, the functions \<open>steering_constraints\<close>, \<open>acceleration_constraints\<close> and
  \<open>vehicle_dynamics_ks_cog\<close>, the tire model \<open>tireModel\<close> and the module \<open>math\<close>. In
  the module as it stands the first of them is looked up at line 357, and every call
  stops there. The model takes \<open>p\<close> and the functions as parameters, so that what is
  proved holds for every way of binding them; the functions are taken to be pure, and
  \<open>math.cos\<close>, \<open>math.sin\<close>, \<open>math.tan\<close>, \<open>math.atan\<close>, \<open>math.sqrt\<close> are the real functions.
  The fields of \<open>p\<close> carry the prefix \<open>p_\<close>: \<open>p_a p\<close> is \<open>p.a\<close>.
\<close>

record ('st, 'lg, 'tr) vehicle_params =
  p_steering :: 'st
  p_longitudinal :: 'lg
  p_tire :: 'tr
  p_a :: real
  p_b :: real
  p_m :: real
  p_m_s :: real
  p_m_uf :: real
  p_m_ur :: real
  p_I_Phi_s :: real
  p_I_y_s :: real
  p_I_z :: real
  p_I_xz_s :: real
  p_K_sf :: real
  p_K_sdf :: real
  p_K_sr :: real
  p_K_sdr :: real
  p_T_f :: real
  p_T_r :: real
  p_K_ras :: real
  p_K_tsf :: real
  p_K_tsr :: real
  p_K_rad :: real
  p_K_zt :: real
  p_h_raf :: real
  p_h_rar :: real
  p_h_s :: real
  p_I_uf :: real
  p_I_ur :: real
  p_I_y_w :: real
  p_K_lt :: real
  p_R_w :: real
  p_T_sb :: real
  p_T_se :: real
  p_D_f :: real
  p_D_r :: real
  p_E_f :: real
  p_E_r :: real

record ('st, 'lg, 'tr) mb_env =
  steering_constraints :: "real \<Rightarrow> real \<Rightarrow> 'st \<Rightarrow> exn + real"
  acceleration_constraints :: "real \<Rightarrow> real \<Rightarrow> 'lg \<Rightarrow> exn + real"
  formula_longitudinal :: "real \<Rightarrow> real \<Rightarrow> real \<Rightarrow> 'tr \<Rightarrow> exn + real"
  formula_lateral :: "real \<Rightarrow> real \<Rightarrow> real \<Rightarrow> 'tr \<Rightarrow> exn + real list"
  formula_longitudinal_comb :: "real \<Rightarrow> real \<Rightarrow> real \<Rightarrow> 'tr \<Rightarrow> exn + real"
  formula_lateral_comb ::
    "real \<Rightarrow> real \<Rightarrow> real \<Rightarrow> real \<Rightarrow> real \<Rightarrow> real \<Rightarrow> 'tr \<Rightarrow> exn + real"
  vehicle_dynamics_ks_cog ::
    "real list \<Rightarrow> real list \<Rightarrow> ('st, 'lg, 'tr) vehicle_params \<Rightarrow> exn + real list"

text \<open>
  Lines 247 to 620 of the source: the right-hand side \<open>f\<close> with its first 27 entries,
  and the two compliant-joint rates \<open>dot_delta_y_f\<close>, \<open>dot_delta_y_r\<close> that are appended
  after the loop. The function first reads \<open>params[0]\<close> to \<open>params[77]\<close> into local names
  it never uses, which fails exactly when \<open>params\<close> has fewer than 78 entries. A read
  \<open>item x i\<close> stands where the source first reads an index of \<open>x\<close> beyond all the ones
  read before; after it, \<open>x ! j\<close> for \<open>j \<le> i\<close> is the entry the source reads. Every
  division is an \<open>fdiv\<close>, in the order of evaluation of the source. The statements of
  one paragraph of the source form one block, which hands its values on as a tuple; the
  entries that the source appends to \<open>f\<close> are joined in the same order at the end.
\<close>

definition mb_rhs ::
  "('st, 'lg, 'tr) mb_env \<Rightarrow> ('st, 'lg, 'tr) vehicle_params \<Rightarrow> real list \<Rightarrow> real list
     \<Rightarrow> real list \<Rightarrow> exn + (real list \<times> real \<times> real)" where
  "mb_rhs env p x uInit params =
     (let g = 981 / 100 in
      ebind (item params 77) (\<lambda>_.
      \<comment> \<open>steering and acceleration constraints\<close>
      ebind (ebind (item x 2) (\<lambda>_.
             ebind (item uInit 0) (\<lambda>_.
             ebind (steering_constraints env (x ! 2) (uInit ! 0) (p_steering p)) (\<lambda>u0.
             ebind (item x 3) (\<lambda>_.
             ebind (item uInit 1) (\<lambda>_.
             ebind (acceleration_constraints env (x ! 3) (uInit ! 1) (p_longitudinal p))
               (\<lambda>u1. Inr (u0, u1))))))))
        (\<lambda>(u0, u1).
      \<comment> \<open>slip angle at cg\<close>
      ebind (item x 10) (\<lambda>_.
      ebind (if \<bar>x ! 3\<bar> < 1 / 10 then Inr 0
             else ebind (fdiv (x ! 10) (x ! 3)) (\<lambda>q. Inr (arctan q))) (\<lambda>beta.
      let vel = sqrt ((x ! 3)\<^sup>2 + (x ! 10)\<^sup>2) in
      \<comment> \<open>vertical tire forces\<close>
      ebind (item x 16) (\<lambda>_.
      let F_z_LF = (x ! 16 + p_R_w p * (cos (x ! 13) - 1) - 1 / 2 * p_T_f p * sin (x ! 13))
                     * p_K_zt p;
          F_z_RF = (x ! 16 + p_R_w p * (cos (x ! 13) - 1) + 1 / 2 * p_T_f p * sin (x ! 13))
                     * p_K_zt p in
      ebind (item x 21) (\<lambda>_.
      let F_z_LR = (x ! 21 + p_R_w p * (cos (x ! 18) - 1) - 1 / 2 * p_T_r p * sin (x ! 18))
                     * p_K_zt p;
          F_z_RR = (x ! 21 + p_R_w p * (cos (x ! 18) - 1) + 1 / 2 * p_T_r p * sin (x ! 18))
                     * p_K_zt p;
          \<comment> \<open>individual tire speeds\<close>
          u_w_lf0 = (x ! 3 + 1 / 2 * p_T_f p * x ! 5) * cos (x ! 2)
                      + (x ! 10 + p_a p * x ! 5) * sin (x ! 2);
          u_w_rf0 = (x ! 3 - 1 / 2 * p_T_f p * x ! 5) * cos (x ! 2)
                      + (x ! 10 + p_a p * x ! 5) * sin (x ! 2);
          u_w_lr0 = x ! 3 + 1 / 2 * p_T_r p * x ! 5;
          u_w_rr0 = x ! 3 - 1 / 2 * p_T_r p * x ! 5;
          \<comment> \<open>negative wheel spin forbidden\<close>
          u_w_lf = (if u_w_lf0 < 0 then u_w_lf0 * 0 else u_w_lf0);
          u_w_rf = (if u_w_rf0 < 0 then u_w_rf0 * 0 else u_w_rf0);
          u_w_lr = (if u_w_lr0 < 0 then u_w_lr0 * 0 else u_w_lr0);
          u_w_rr = (if u_w_rr0 < 0 then u_w_rr0 * 0 else u_w_rr0) in
      \<comment> \<open>longitudinal slip\<close>
      ebind (if \<bar>x ! 3\<bar> < 1 / 10 then Inr (0, 0, 0, 0)
             else
               ebind (item x 23) (\<lambda>_.
               ebind (fdiv (p_R_w p * x ! 23) u_w_lf) (\<lambda>q_lf.
               ebind (item x 24) (\<lambda>_.
               ebind (fdiv (p_R_w p * x ! 24) u_w_rf) (\<lambda>q_rf.
               ebind (item x 25) (\<lambda>_.
               ebind (fdiv (p_R_w p * x ! 25) u_w_lr) (\<lambda>q_lr.
               ebind (item x 26) (\<lambda>_.
               ebind (fdiv (p_R_w p * x ! 26) u_w_rr) (\<lambda>q_rr.
               Inr (1 - q_lf, 1 - q_rf, 1 - q_lr, 1 - q_rr))))))))))
        (\<lambda>(s_lf, s_rf, s_lr, s_rr).
      \<comment> \<open>lateral slip angles\<close>
      ebind (if \<bar>x ! 3\<bar> < 1 / 10 then Inr (0, 0, 0, 0)
             else
               ebind (fdiv (x ! 10 + p_a p * x ! 5 - x ! 14 * (p_R_w p - x ! 16))
                        (x ! 3 + 1 / 2 * p_T_f p * x ! 5)) (\<lambda>q_LF.
               ebind (fdiv (x ! 10 + p_a p * x ! 5 - x ! 14 * (p_R_w p - x ! 16))
                        (x ! 3 - 1 / 2 * p_T_f p * x ! 5)) (\<lambda>q_RF.
               ebind (fdiv (x ! 10 - p_b p * x ! 5 - x ! 19 * (p_R_w p - x ! 21))
                        (x ! 3 + 1 / 2 * p_T_r p * x ! 5)) (\<lambda>q_LR.
               ebind (fdiv (x ! 10 - p_b p * x ! 5 - x ! 19 * (p_R_w p - x ! 21))
                        (x ! 3 - 1 / 2 * p_T_r p * x ! 5)) (\<lambda>q_RR.
               Inr (arctan q_LF - x ! 2, arctan q_RF - x ! 2, arctan q_LR, arctan q_RR))))))
        (\<lambda>(alpha_LF, alpha_RF, alpha_LR, alpha_RR).
      \<comment> \<open>auxiliary suspension movement\<close>
      ebind (ebind (fdiv (p_h_s p - p_R_w p + x ! 16 - x ! 11) (cos (x ! 6))) (\<lambda>qz_LF.
             ebind (fdiv (p_h_s p - p_R_w p + x ! 16 - x ! 11) (cos (x ! 6))) (\<lambda>qz_RF.
             ebind (fdiv (p_h_s p - p_R_w p + x ! 21 - x ! 11) (cos (x ! 6))) (\<lambda>qz_LR.
             ebind (fdiv (p_h_s p - p_R_w p + x ! 21 - x ! 11) (cos (x ! 6))) (\<lambda>qz_RR.
             Inr (qz_LF - p_h_s p + p_R_w p + p_a p * x ! 8
                    + 1 / 2 * (x ! 6 - x ! 13) * p_T_f p,
                  qz_RF - p_h_s p + p_R_w p + p_a p * x ! 8
                    - 1 / 2 * (x ! 6 - x ! 13) * p_T_f p,
                  qz_LR - p_h_s p + p_R_w p - p_b p * x ! 8
                    + 1 / 2 * (x ! 6 - x ! 18) * p_T_r p,
                  qz_RR - p_h_s p + p_R_w p - p_b p * x ! 8
                    - 1 / 2 * (x ! 6 - x ! 18) * p_T_r p))))))
        (\<lambda>(z_SLF, z_SRF, z_SLR, z_SRR).
      let dz_SLF = x ! 17 - x ! 12 + p_a p * x ! 9 + 1 / 2 * (x ! 7 - x ! 14) * p_T_f p;
          dz_SRF = x ! 17 - x ! 12 + p_a p * x ! 9 - 1 / 2 * (x ! 7 - x ! 14) * p_T_f p in
      ebind (item x 22) (\<lambda>_.
      let dz_SLR = x ! 22 - x ! 12 - p_b p * x ! 9 + 1 / 2 * (x ! 7 - x ! 19) * p_T_r p;
          dz_SRR = x ! 22 - x ! 12 - p_b p * x ! 9 - 1 / 2 * (x ! 7 - x ! 19) * p_T_r p;
          \<comment> \<open>camber angles\<close>
          gamma_LF = x ! 6 + p_D_f p * z_SLF + p_E_f p * z_SLF\<^sup>2;
          gamma_RF = x ! 6 - p_D_f p * z_SRF - p_E_f p * z_SRF\<^sup>2;
          gamma_LR = x ! 6 + p_D_r p * z_SLR + p_E_r p * z_SLR\<^sup>2;
          gamma_RR = x ! 6 - p_D_r p * z_SRR - p_E_r p * z_SRR\<^sup>2 in
      \<comment> \<open>longitudinal tire forces, pure slip\<close>
      ebind (ebind (formula_longitudinal env s_lf gamma_LF F_z_LF (p_tire p)) (\<lambda>F0_x_LF.
             ebind (formula_longitudinal env s_rf gamma_RF F_z_RF (p_tire p)) (\<lambda>F0_x_RF.
             ebind (formula_longitudinal env s_lr gamma_LR F_z_LR (p_tire p)) (\<lambda>F0_x_LR.
             ebind (formula_longitudinal env s_rr gamma_RR F_z_RR (p_tire p)) (\<lambda>F0_x_RR.
             Inr (F0_x_LF, F0_x_RF, F0_x_LR, F0_x_RR))))))
        (\<lambda>(F0_x_LF, F0_x_RF, F0_x_LR, F0_x_RR).
      \<comment> \<open>lateral tire forces, pure slip\<close>
      ebind (ebind (formula_lateral env alpha_LF gamma_LF F_z_LF (p_tire p)) (\<lambda>res_LF.
             ebind (item res_LF 0) (\<lambda>F0_y_LF.
             ebind (item res_LF 1) (\<lambda>mu_y_LF.
             ebind (formula_lateral env alpha_RF gamma_RF F_z_RF (p_tire p)) (\<lambda>res_RF.
             ebind (item res_RF 0) (\<lambda>F0_y_RF.
             ebind (item res_RF 1) (\<lambda>mu_y_RF.
             ebind (formula_lateral env alpha_LR gamma_LR F_z_LR (p_tire p)) (\<lambda>res_LR.
             ebind (item res_LR 0) (\<lambda>F0_y_LR.
             ebind (item res_LR 1) (\<lambda>mu_y_LR.
             ebind (formula_lateral env alpha_RR gamma_RR F_z_RR (p_tire p)) (\<lambda>res_RR.
             ebind (item res_RR 0) (\<lambda>F0_y_RR.
             ebind (item res_RR 1) (\<lambda>mu_y_RR.
             Inr (F0_y_LF, mu_y_LF, F0_y_RF, mu_y_RF,
                  F0_y_LR, mu_y_LR, F0_y_RR, mu_y_RR))))))))))))))
        (\<lambda>(F0_y_LF, mu_y_LF, F0_y_RF, mu_y_RF, F0_y_LR, mu_y_LR, F0_y_RR, mu_y_RR).
      \<comment> \<open>longitudinal tire forces, combined slip\<close>
      ebind (ebind (formula_longitudinal_comb env s_lf alpha_LF F0_x_LF (p_tire p)) (\<lambda>F_x_LF.
             ebind (formula_longitudinal_comb env s_rf alpha_RF F0_x_RF (p_tire p)) (\<lambda>F_x_RF.
             ebind (formula_longitudinal_comb env s_lr alpha_LR F0_x_LR (p_tire p)) (\<lambda>F_x_LR.
             ebind (formula_longitudinal_comb env s_rr alpha_RR F0_x_RR (p_tire p)) (\<lambda>F_x_RR.
             Inr (F_x_LF, F_x_RF, F_x_LR, F_x_RR))))))
        (\<lambda>(F_x_LF, F_x_RF, F_x_LR, F_x_RR).
      \<comment> \<open>lateral tire forces, combined slip\<close>
      ebind (ebind (formula_lateral_comb env s_lf alpha_LF gamma_LF mu_y_LF F_z_LF F0_y_LF
                      (p_tire p)) (\<lambda>F_y_LF.
             ebind (formula_lateral_comb env s_rf alpha_RF gamma_RF mu_y_RF F_z_RF F0_y_RF
                      (p_tire p)) (\<lambda>F_y_RF.
             ebind (formula_lateral_comb env s_lr alpha_LR gamma_LR mu_y_LR F_z_LR F0_y_LR
                      (p_tire p)) (\<lambda>F_y_LR.
             ebind (formula_lateral_comb env s_rr alpha_RR gamma_RR mu_y_RR F_z_RR F0_y_RR
                      (p_tire p)) (\<lambda>F_y_RR.
             Inr (F_y_LF, F_y_RF, F_y_LR, F_y_RR))))))
        (\<lambda>(F_y_LF, F_y_RF, F_y_LR, F_y_RR).
      \<comment> \<open>auxiliary movements for compliant joint equations\<close>
      let delta_z_f = p_h_s p - p_R_w p + x ! 16 - x ! 11;
          delta_z_r = p_h_s p - p_R_w p + x ! 21 - x ! 11;
          delta_phi_f = x ! 6 - x ! 13;
          delta_phi_r = x ! 6 - x ! 18;
          dot_delta_phi_f = x ! 7 - x ! 14;
          dot_delta_phi_r = x ! 7 - x ! 19;
          dot_delta_z_f = x ! 17 - x ! 12;
          dot_delta_z_r = x ! 22 - x ! 12;
          dot_delta_y_f = x ! 10 + p_a p * x ! 5 - x ! 15;
          dot_delta_y_r = x ! 10 - p_b p * x ! 5 - x ! 20 in
      ebind (item x 27) (\<lambda>_.
      let delta_f = delta_z_f * sin (x ! 6) - x ! 27 * cos (x ! 6)
                      - (p_h_raf p - p_R_w p) * sin delta_phi_f in
      ebind (item x 28) (\<lambda>_.
      let delta_r = delta_z_r * sin (x ! 6) - x ! 28 * cos (x ! 6)
                      - (p_h_rar p - p_R_w p) * sin delta_phi_r;
          dot_delta_f = (delta_z_f * cos (x ! 6) + x ! 27 * sin (x ! 6)) * x ! 7
                          + dot_delta_z_f * sin (x ! 6) - dot_delta_y_f * cos (x ! 6)
                          - (p_h_raf p - p_R_w p) * cos delta_phi_f * dot_delta_phi_f;
          dot_delta_r = (delta_z_r * cos (x ! 6) + x ! 28 * sin (x ! 6)) * x ! 7
                          + dot_delta_z_r * sin (x ! 6) - dot_delta_y_r * cos (x ! 6)
                          - (p_h_rar p - p_R_w p) * cos delta_phi_r * dot_delta_phi_r;
          \<comment> \<open>compliant joint forces\<close>
          F_RAF = delta_f * p_K_ras p + dot_delta_f * p_K_rad p;
          F_RAR = delta_r * p_K_ras p + dot_delta_r * p_K_rad p in
      \<comment> \<open>auxiliary suspension forces\<close>
      ebind (ebind (fdiv (p_m_s p * g * p_b p) (2 * (p_a p + p_b p))) (\<lambda>w_LF.
             ebind (fdiv ((x ! 6 - x ! 13) * p_K_tsf p) (p_T_f p)) (\<lambda>t_LF.
             ebind (fdiv (p_m_s p * g * p_b p) (2 * (p_a p + p_b p))) (\<lambda>w_RF.
             ebind (fdiv ((x ! 6 - x ! 13) * p_K_tsf p) (p_T_f p)) (\<lambda>t_RF.
             ebind (fdiv (p_m_s p * g * p_a p) (2 * (p_a p + p_b p))) (\<lambda>w_LR.
             ebind (fdiv ((x ! 6 - x ! 18) * p_K_tsr p) (p_T_r p)) (\<lambda>t_LR.
             ebind (fdiv (p_m_s p * g * p_a p) (2 * (p_a p + p_b p))) (\<lambda>w_RR.
             ebind (fdiv ((x ! 6 - x ! 18) * p_K_tsr p) (p_T_r p)) (\<lambda>t_RR.
             Inr (w_LF - z_SLF * p_K_sf p - dz_SLF * p_K_sdf p + t_LF,
                  w_RF - z_SRF * p_K_sf p - dz_SRF * p_K_sdf p - t_RF,
                  w_LR - z_SLR * p_K_sr p - dz_SLR * p_K_sdr p + t_LR,
                  w_RR - z_SRR * p_K_sr p - dz_SRR * p_K_sdr p - t_RR))))))))))
        (\<lambda>(F_SLF, F_SRF, F_SLR, F_SRR).
      \<comment> \<open>auxiliary variables sprung mass\<close>
      let sumX = F_x_LR + F_x_RR + (F_x_LF + F_x_RF) * cos (x ! 2)
                   - (F_y_LF + F_y_RF) * sin (x ! 2);
          sumN = (F_y_LF + F_y_RF) * p_a p * cos (x ! 2)
                   + (F_x_LF + F_x_RF) * p_a p * sin (x ! 2)
                   + (F_y_RF - F_y_LF) * (1 / 2) * p_T_f p * sin (x ! 2)
                   + (F_x_LF - F_x_RF) * (1 / 2) * p_T_f p * cos (x ! 2)
                   + (F_x_LR - F_x_RR) * (1 / 2) * p_T_r p - (F_y_LR + F_y_RR) * p_b p;
          sumY_s = (F_RAF + F_RAR) * cos (x ! 6)
                     + (F_SLF + F_SLR + F_SRF + F_SRR) * sin (x ! 6) in
      ebind (fdiv F_RAF (cos (x ! 6))) (\<lambda>r_f.
      ebind (fdiv F_RAR (cos (x ! 6))) (\<lambda>r_r.
      let sumL = 1 / 2 * F_SLF * p_T_f p + 1 / 2 * F_SLR * p_T_r p
                   - 1 / 2 * F_SRF * p_T_f p - 1 / 2 * F_SRR * p_T_r p
                   - r_f * (p_h_s p - x ! 11 - p_R_w p + x ! 16
                            - (p_h_raf p - p_R_w p) * cos (x ! 13))
                   - r_r * (p_h_s p - x ! 11 - p_R_w p + x ! 21
                            - (p_h_rar p - p_R_w p) * cos (x ! 18));
          sumZ_s = (F_SLF + F_SLR + F_SRF + F_SRR) * cos (x ! 6)
                     - (F_RAF + F_RAR) * sin (x ! 6);
          sumM_s = p_a p * (F_SLF + F_SRF) - p_b p * (F_SLR + F_SRR)
                     + ((F_x_LF + F_x_RF) * cos (x ! 2) - (F_y_LF + F_y_RF) * sin (x ! 2)
                        + F_x_LR + F_x_RR) * (p_h_s p - x ! 11);
          \<comment> \<open>auxiliary variables unsprung mass\<close>
          sumL_uf = 1 / 2 * F_SRF * p_T_f p - 1 / 2 * F_SLF * p_T_f p
                      - F_RAF * (p_h_raf p - p_R_w p)
                      + F_z_LF * (p_R_w p * sin (x ! 13) + 1 / 2 * p_T_f p * cos (x ! 13)
                                  - p_K_lt p * F_y_LF)
                      - F_z_RF * (- p_R_w p * sin (x ! 13) + 1 / 2 * p_T_f p * cos (x ! 13)
                                  + p_K_lt p * F_y_RF)
                      - ((F_y_LF + F_y_RF) * cos (x ! 2) + (F_x_LF + F_x_RF) * sin (x ! 2))
                          * (p_R_w p - x ! 16);
          sumL_ur = 1 / 2 * F_SRR * p_T_r p - 1 / 2 * F_SLR * p_T_r p
                      - F_RAR * (p_h_rar p - p_R_w p)
                      + F_z_LR * (p_R_w p * sin (x ! 18) + 1 / 2 * p_T_r p * cos (x ! 18)
                                  - p_K_lt p * F_y_LR)
                      - F_z_RR * (- p_R_w p * sin (x ! 18) + 1 / 2 * p_T_r p * cos (x ! 18)
                                  + p_K_lt p * F_y_RR)
                      - (F_y_LR + F_y_RR) * (p_R_w p - x ! 21);
          sumZ_uf = F_z_LF + F_z_RF + F_RAF * sin (x ! 6) - (F_SLF + F_SRF) * cos (x ! 6);
          sumZ_ur = F_z_LR + F_z_RR + F_RAR * sin (x ! 6) - (F_SLR + F_SRR) * cos (x ! 6);
          sumY_uf = (F_y_LF + F_y_RF) * cos (x ! 2) + (F_x_LF + F_x_RF) * sin (x ! 2)
                      - F_RAF * cos (x ! 6) - (F_SLF + F_SRF) * sin (x ! 6);
          sumY_ur = (F_y_LR + F_y_RR) - F_RAR * cos (x ! 6) - (F_SLR + F_SRR) * sin (x ! 6) in
      \<comment> \<open>dynamics common with single-track model\<close>
      ebind (if \<bar>x ! 3\<bar> < 1 / 10 then
               (let lwb = p_a p + p_b p;
                    x_ks = [x ! 0, x ! 1, x ! 2, x ! 3, x ! 4] in
                ebind (vehicle_dynamics_ks_cog env x_ks [u0, u1] p) (\<lambda>f_ks.
                ebind (item f_ks 0) (\<lambda>f_ks0.
                ebind (item f_ks 1) (\<lambda>f_ks1.
                ebind (item f_ks 2) (\<lambda>f_ks2.
                ebind (item f_ks 3) (\<lambda>f_ks3.
                ebind (item f_ks 4) (\<lambda>f_ks4.
                ebind (fdiv ((tan (x ! 2))\<^sup>2 * p_b p) lwb) (\<lambda>tb.
                ebind (fdiv (p_b p * u0) (lwb * (cos (x ! 2))\<^sup>2 * (1 + tb\<^sup>2))) (\<lambda>d_beta.
                ebind (fdiv 1 lwb) (\<lambda>inv_lwb.
                ebind (fdiv (x ! 3 * cos (x ! 6) * u0) ((cos (x ! 2))\<^sup>2)) (\<lambda>q_psi.
                let dd_psi = inv_lwb * (u1 * cos (x ! 6) * tan (x ! 2)
                                        - x ! 3 * sin (x ! 6) * d_beta * tan (x ! 2)
                                        + q_psi) in
                Inr [f_ks0, f_ks1, f_ks2, f_ks3, f_ks4, dd_psi])))))))))))
             else
               ebind (fdiv 1 (p_m p)) (\<lambda>inv_m.
               ebind (fdiv ((p_I_xz_s p)\<^sup>2) (p_I_Phi_s p)) (\<lambda>c1.
               ebind (fdiv 1 (p_I_z p - c1)) (\<lambda>inv_yaw.
               ebind (fdiv (p_I_xz_s p) (p_I_Phi_s p)) (\<lambda>c2.
               Inr [cos (beta + x ! 4) * vel,
                    sin (beta + x ! 4) * vel,
                    u0,
                    inv_m * sumX + x ! 5 * x ! 10,
                    x ! 5,
                    inv_yaw * (sumN + c2 * sumL)]))))) (\<lambda>f_common.
      \<comment> \<open>remaining sprung mass dynamics\<close>
      ebind (ebind (fdiv ((p_I_xz_s p)\<^sup>2) (p_I_z p)) (\<lambda>c3.
             ebind (fdiv 1 (p_I_Phi_s p - c3)) (\<lambda>inv_roll.
             ebind (fdiv (p_I_xz_s p) (p_I_z p)) (\<lambda>c4.
             ebind (fdiv 1 (p_I_y_s p)) (\<lambda>inv_I_y_s.
             ebind (fdiv 1 (p_m_s p)) (\<lambda>inv_m_s1.
             ebind (fdiv 1 (p_m_s p)) (\<lambda>inv_m_s2.
             Inr [x ! 7,
                  inv_roll * (c4 * sumN + sumL),
                  x ! 9,
                  inv_I_y_s * sumM_s,
                  inv_m_s1 * sumY_s - x ! 5 * x ! 3,
                  x ! 12,
                  g - inv_m_s2 * sumZ_s]))))))) (\<lambda>f_sprung.
      \<comment> \<open>unsprung mass dynamics (front)\<close>
      ebind (ebind (fdiv 1 (p_I_uf p)) (\<lambda>inv_I_uf.
             ebind (fdiv 1 (p_m_uf p)) (\<lambda>inv_m_uf1.
             ebind (fdiv 1 (p_m_uf p)) (\<lambda>inv_m_uf2.
             Inr [x ! 14,
                  inv_I_uf * sumL_uf,
                  inv_m_uf1 * sumY_uf - x ! 5 * x ! 3,
                  x ! 17,
                  g - inv_m_uf2 * sumZ_uf])))) (\<lambda>f_front.
      \<comment> \<open>unsprung mass dynamics (rear)\<close>
      ebind (ebind (fdiv 1 (p_I_ur p)) (\<lambda>inv_I_ur.
             ebind (fdiv 1 (p_m_ur p)) (\<lambda>inv_m_ur1.
             ebind (fdiv 1 (p_m_ur p)) (\<lambda>inv_m_ur2.
             Inr [x ! 19,
                  inv_I_ur * sumL_ur,
                  inv_m_ur1 * sumY_ur - x ! 5 * x ! 3,
                  x ! 22,
                  g - inv_m_ur2 * sumZ_ur])))) (\<lambda>f_rear.
      \<comment> \<open>brake and engine torque\<close>
      let T_B = (if u1 > 0 then 0 else p_m p * p_R_w p * u1);
          T_E = (if u1 > 0 then p_m p * p_R_w p * u1 else 0) in
      \<comment> \<open>wheel dynamics\<close>
      ebind (ebind (fdiv 1 (p_I_y_w p)) (\<lambda>inv_w1.
             ebind (fdiv 1 (p_I_y_w p)) (\<lambda>inv_w2.
             ebind (fdiv 1 (p_I_y_w p)) (\<lambda>inv_w3.
             ebind (fdiv 1 (p_I_y_w p)) (\<lambda>inv_w4.
             Inr [inv_w1 * (- p_R_w p * F_x_LF + 1 / 2 * p_T_sb p * T_B
                            + 1 / 2 * p_T_se p * T_E),
                  inv_w2 * (- p_R_w p * F_x_RF + 1 / 2 * p_T_sb p * T_B
                            + 1 / 2 * p_T_se p * T_E),
                  inv_w3 * (- p_R_w p * F_x_LR + 1 / 2 * (1 - p_T_sb p) * T_B
                            + 1 / 2 * (1 - p_T_se p) * T_E),
                  inv_w4 * (- p_R_w p * F_x_RR + 1 / 2 * (1 - p_T_sb p) * T_B
                            + 1 / 2 * (1 - p_T_se p) * T_E)]))))) (\<lambda>f_wheels.
      Inr (f_common @ f_sprung @ f_front @ f_rear @ f_wheels, dot_delta_y_f, dot_delta_y_r)
      )))))))))))))))))))))))))"

text \<open>
  Lines 622 to 626: the loop over \<open>range(23, 27)\<close>. Where the wheel speed \<open>x[iState]\<close> is
  negative it assigns \<open>0.0\<close> to \<open>x[iState]\<close>, the array of the caller, and to
  \<open>f[iState]\<close>. The loop runs only after \<open>x[28]\<close> has been read and with the 27 entries
  of \<open>f\<close>, so both assignments are in range.
\<close>

fun negative_wheel_spin :: "nat list \<Rightarrow> real list \<times> real list \<Rightarrow> real list \<times> real list" where
  "negative_wheel_spin [] (x, f) = (x, f)"
| "negative_wheel_spin (iState # rest) (x, f) =
     (if x ! iState < 0 then negative_wheel_spin rest (x[iState := 0], f[iState := 0])
      else negative_wheel_spin rest (x, f))"

text \<open>
  The whole call. Its value is the pair of the content of the caller's array \<open>x\<close> when
  the call returns, and of the list \<open>f\<close> that it returns. A call that raises has not
  reached the loop: it leaves \<open>x\<close> as it was.
\<close>

definition vehicle_dynamics_mb ::
  "('st, 'lg, 'tr) mb_env \<Rightarrow> ('st, 'lg, 'tr) vehicle_params \<Rightarrow> real list \<Rightarrow> real list
     \<Rightarrow> real list \<Rightarrow> exn + (real list \<times> real list)" where
  "vehicle_dynamics_mb env p x uInit params =
     ebind (mb_rhs env p x uInit params) (\<lambda>(f27, dot_delta_y_f, dot_delta_y_r).
       case negative_wheel_spin [23, 24, 25, 26] (x, f27) of
         (x', f') \<Rightarrow> Inr (x', f' @ [dot_delta_y_f, dot_delta_y_r]))"

text \<open>
  To run the model on concrete states, one binding of the free names: the two constraint
  functions are the ones of this module, \<open>steering_constraint\<close> and \<open>accl_constraints\<close>,
  with their bounds taken from \<open>p.steering\<close> and \<open>p.longitudinal\<close>; the tire model
  returns no force, and the kinematic model at the center of gravity returns a zero
  derivative. And one parameter object: the steering angle and its velocity are bounded
  by \<open>-1\<close> and \<open>1\<close>, the velocity by \<open>-13\<close> and \<open>50\<close>, with \<open>v_switch = 7\<close> and
  \<open>a_max = 11\<close>; every mass, inertia, length and rate is \<open>1\<close> and the cross inertia
  \<open>I_xz_s\<close> is \<open>0\<close>, so that no divisor built from the parameters alone is zero.
\<close>

definition stub_env ::
  "(real \<times> real \<times> real \<times> real, real \<times> real \<times> real \<times> real, unit) mb_env" where
  "stub_env = \<lparr>
     steering_constraints = (\<lambda>angle v (s_min, s_max, sv_min, sv_max).
       Inr (steering_constraint angle v s_min s_max sv_min sv_max)),
     acceleration_constraints = (\<lambda>vel a (v_switch, a_max, v_min, v_max).
       accl_constraints vel a v_switch a_max v_min v_max),
     formula_longitudinal = (\<lambda>_ _ _ _. Inr 0),
     formula_lateral = (\<lambda>_ _ _ _. Inr [0, 0]),
     formula_longitudinal_comb = (\<lambda>_ _ _ _. Inr 0),
     formula_lateral_comb = (\<lambda>_ _ _ _ _ _ _. Inr 0),
     vehicle_dynamics_ks_cog = (\<lambda>_ _ _. Inr [0, 0, 0, 0, 0]) \<rparr>"

definition unit_params ::
  "(real \<times> real \<times> real \<times> real, real \<times> real \<times> real \<times> real, unit) vehicle_params" where
  "unit_params = \<lparr>
     p_steering = (-1, 1, -1, 1), p_longitudinal = (7, 11, -13, 50), p_tire = (),
     p_a = 1, p_b = 1, p_m = 1, p_m_s = 1, p_m_uf = 1, p_m_ur = 1,
     p_I_Phi_s = 1, p_I_y_s = 1, p_I_z = 1, p_I_xz_s = 0,
     p_K_sf = 1, p_K_sdf = 1, p_K_sr = 1, p_K_sdr = 1,
     p_T_f = 1, p_T_r = 1, p_K_ras = 1, p_K_tsf = 1, p_K_tsr = 1, p_K_rad = 1, p_K_zt = 1,
     p_h_raf = 1, p_h_rar = 1, p_h_s = 1, p_I_uf = 1, p_I_ur = 1, p_I_y_w = 1,
     p_K_lt = 1, p_R_w = 1, p_T_sb = 1, p_T_se = 1,
     p_D_f = 1, p_D_r = 1, p_E_f = 1, p_E_r = 1 \<rparr>"

section \<open>Notions of the specification\<close>

text \<open>
  The specification speaks of a value \<^emph>\<open>clamped into\<close> an interval and of the
  \<^emph>\<open>positive acceleration ceiling\<close>: \<open>a_max\<close> at or below the switching velocity, and
  \<open>a_max * v_switch / speed\<close> above it. Both are written here from its words; the
  quotient is the division of the program.
\<close>

definition clamp :: "real \<Rightarrow> real \<Rightarrow> real \<Rightarrow> real" where
  "clamp lo hi v = max lo (min hi v)"

definition positive_ceiling :: "real \<Rightarrow> real \<Rightarrow> real \<Rightarrow> exn + real" where
  "positive_ceiling speed v_switch a_max =
     (if speed \<le> v_switch then Inr a_max else fdiv (a_max * v_switch) speed)"

text \<open>The chain \<open>if / elif / elif\<close> of \<open>accl_constraints\<close>, for a given positive limit.\<close>

definition accl_chain :: "real \<Rightarrow> real \<Rightarrow> real \<Rightarrow> real \<Rightarrow> real \<Rightarrow> real \<Rightarrow> real" where
  "accl_chain vel accl a_max v_min v_max pos_limit =
     (if (vel \<le> v_min \<and> accl \<le> 0) \<or> (vel \<ge> v_max \<and> accl \<ge> 0) then 0
      else if accl \<le> - a_max then - a_max
      else if accl \<ge> pos_limit then pos_limit
      else accl)"

section \<open>Basic facts\<close>

lemma ebind_Inr [simp]: "ebind (Inr v) k = k v"
  by (simp add: ebind_def)

lemma ebind_Inl [simp]: "ebind (Inl e) k = Inl e"
  by (simp add: ebind_def)

lemma fdiv_nz [simp]: "b \<noteq> 0 \<Longrightarrow> fdiv a b = Inr (a / b)"
  by (simp add: fdiv_def)

lemma fdiv_z [simp]: "fdiv a 0 = Inl ZeroDivisionError"
  by (simp add: fdiv_def)

lemma item_in [simp]: "i < length xs \<Longrightarrow> item xs i = Inr (xs ! i)"
  by (simp add: item_def)

lemma item_out [simp]: "length xs \<le> i \<Longrightarrow> item xs i = Inl IndexError"
  by (simp add: item_def)

lemma fdiv_abs: "d \<noteq> 0 \<Longrightarrow> fdiv d \<bar>d\<bar> = Inr (sgn d)"
  by (simp add: fdiv_def sgn_real_def abs_real_def divide_eq_minus_1_iff)

lemma accl_constraints_returns:
  assumes "vel \<le> v_switch \<or> vel \<noteq> 0"
  shows "\<exists>a. accl_constraints vel accl v_switch a_max v_min v_max = Inr a"
  using assms by (auto simp: accl_constraints_def fdiv_def)

lemma ks_returns:
  assumes "length x = 5" and "length u_init = 2" and "lf + lr \<noteq> 0"
    and "x ! 3 \<le> v_switch \<or> x ! 3 \<noteq> 0"
  shows "\<exists>f. vehicle_dynamics_ks x u_init mu C_Sf C_Sr lf lr h m I s_min s_max sv_min sv_max
               v_switch a_max v_min v_max = Inr f \<and> length f = 5"
proof -
  obtain a where "accl_constraints (x ! 3) (u_init ! 1) v_switch a_max v_min v_max = Inr a"
    using accl_constraints_returns [OF assms(4)] by blast
  with assms show ?thesis
    by (simp add: vehicle_dynamics_ks_def Let_def)
qed

lemma accl_constraints_chain:
  assumes "(if vel > v_switch then fdiv (a_max * v_switch) vel else Inr a_max) = Inr p"
  shows "accl_constraints vel accl v_switch a_max v_min v_max
         = Inr (accl_chain vel accl a_max v_min v_max p)"
  using assms by (simp add: accl_constraints_def accl_chain_def)

lemma accl_chain_idem:
  assumes "0 \<le> a_max" and "0 \<le> p"
  shows "accl_chain vel (accl_chain vel accl a_max v_min v_max p) a_max v_min v_max p
         = accl_chain vel accl a_max v_min v_max p"
  using assms by (auto simp: accl_chain_def)

lemma pos_limit_nonneg:
  assumes "0 \<le> a_max" and "0 \<le> v_switch"
  shows "\<exists>p. (if vel > v_switch then fdiv (a_max * v_switch) vel else Inr a_max) = Inr p
             \<and> 0 \<le> p"
proof (cases "vel > v_switch")
  case True
  with assms have "vel > 0" by simp
  with assms True show ?thesis by simp
next
  case False
  with assms show ?thesis by simp
qed

lemma cos_one_neq: "cos (1::real) \<noteq> 1"
proof -
  have "cos (1::real) < cos 0"
    by (rule cos_monotone_0_pi) (use pi_ge_two in auto)
  then show ?thesis by simp
qed

lemma pid_sv:
  "(if \<bar>d\<bar> > 1 / 10000 then ebind (fdiv d \<bar>d\<bar>) (\<lambda>s. Inr (s * max_sv)) else Inr 0)
   = Inr (if \<bar>d\<bar> > 1 / 10000 then max_sv * sgn d else 0)"
proof (cases "\<bar>d\<bar> > 1 / 10000")
  case True
  then have "d \<noteq> 0" by auto
  with True show ?thesis by (simp add: fdiv_abs mult.commute del: fdiv_nz)
next
  case False
  then show ?thesis by simp
qed

section \<open>Facts about the multi-body model\<close>

lemma nth_update_zero:
  "(xs[i := 0::real]) ! j = (if j = i \<and> i < length xs then 0 else xs ! j)"
  by (cases "i < length xs") (auto simp: nth_list_update list_update_beyond)

lemma negative_wheel_spin_result:
  assumes "negative_wheel_spin idxs (x, f) = (x', f')"
  shows "length x' = length x \<and> length f' = length f
       \<and> (\<forall>j < length x. x' ! j = (if j \<in> set idxs \<and> x ! j < 0 then 0 else x ! j))
       \<and> (\<forall>j < length f. f' ! j = (if j \<in> set idxs \<and> x ! j < 0 then 0 else f ! j))"
  using assms
proof (induction idxs arbitrary: x f)
  case Nil
  then show ?case by simp
next
  case (Cons i rest)
  show ?case
  proof (cases "x ! i < 0")
    case True
    with Cons.prems have "negative_wheel_spin rest (x[i := 0], f[i := 0]) = (x', f')"
      by simp
    from Cons.IH [OF this] True show ?thesis
      by (auto simp: nth_update_zero)
  next
    case False
    with Cons.prems have "negative_wheel_spin rest (x, f) = (x', f')"
      by simp
    from Cons.IH [OF this] False show ?thesis
      by auto
  qed
qed

lemma ebind_eq_Inr: "ebind r k = Inr v \<longleftrightarrow> (\<exists>w. r = Inr w \<and> k w = Inr v)"
  by (cases r) (simp_all add: ebind_def)

lemma fdiv_eq_Inr: "fdiv a b = Inr q \<longleftrightarrow> b \<noteq> 0 \<and> q = a / b"
  by (auto simp: fdiv_def)

lemma item_eq_Inr: "item xs i = Inr v \<longleftrightarrow> i < length xs \<and> v = xs ! i"
  by (auto simp: item_def)

lemma ebind_InrE:
  assumes "ebind r k = Inr v"
  obtains w where "r = Inr w" and "k w = Inr v"
  using assms by (auto simp: ebind_eq_Inr)

lemma Let_InrE:
  assumes "Let a k = Inr v"
  obtains w where "k w = Inr v"
  using assms by (simp add: Let_def)

lemma if_InrE:
  assumes "(if c then A else B) = Inr v"
  obtains "c" and "A = Inr v" | "\<not> c" and "B = Inr v"
  using assms by (cases c) simp_all

lemma case_prod_InrE:
  assumes "case_prod k w = Inr v"
  obtains a b where "k a b = Inr v"
  using assms by (cases w) simp

lemma mb_rhs_length:
  assumes "mb_rhs env p x uInit params = Inr (f, dy_f, dy_r)"
  shows "length f = 27 \<and> 28 < length x"
  using assms unfolding mb_rhs_def
  apply (elim ebind_InrE Let_InrE if_InrE case_prod_InrE)
         apply (simp_all only: item_eq_Inr sum.inject prod.inject)
         apply (elim conjE, hypsubst_thin, simp)+
  done

lemma mb_rhs_reverse:
  "mb_rhs env p
     [0, 0, 0, -1, 0, 0, 0, 0, 0, 0, 0, 0, 0, 0, 0, 0, 0, 0, 0, 0, 0, 0, 0, 0, 0, 0, 0, 0, 0]
     uInit params \<noteq> Inr v"
  by (simp add: mb_rhs_def Let_def ebind_eq_Inr fdiv_eq_Inr item_eq_Inr)

lemma mb_split:
  assumes "vehicle_dynamics_mb env p x uInit params = Inr (x', f)"
  shows "\<exists>f27 dy_f dy_r f'. mb_rhs env p x uInit params = Inr (f27, dy_f, dy_r)
      \<and> negative_wheel_spin [23, 24, 25, 26] (x, f27) = (x', f')
      \<and> f = f' @ [dy_f, dy_r]"
proof (cases "mb_rhs env p x uInit params")
  case (Inl e)
  with assms show ?thesis
    by (simp add: vehicle_dynamics_mb_def)
next
  case (Inr r)
  obtain f27 dy_f dy_r where r_eq: "r = (f27, dy_f, dy_r)"
    by (cases r) auto
  obtain x'' f' where loop: "negative_wheel_spin [23, 24, 25, 26] (x, f27) = (x'', f')"
    by (cases "negative_wheel_spin [23, 24, 25, 26] (x, f27)") auto
  from assms have "x'' = x'" and "f = f' @ [dy_f, dy_r]"
    unfolding vehicle_dynamics_mb_def Inr r_eq
    by (simp_all add: loop del: negative_wheel_spin.simps)
  with Inr loop show ?thesis
    unfolding r_eq by blast
qed

lemma mb_stub_run:
  "vehicle_dynamics_mb stub_env unit_params
     [0, 0, 0, 0, 0, 0, 0, 0, 0, 0, 0, 0, 0, 0, 0, 0, 0, 0, 0, 0, 0, 0, 0, -1, 0, 0, 0, 0, 0]
     [0, 0] (replicate 78 0)
   = Inr ([0, 0, 0, 0, 0, 0, 0, 0, 0, 0, 0, 0, 0, 0, 0, 0, 0, 0, 0, 0, 0, 0, 0, 0, 0, 0, 0, 0, 0],
          [0, 0, 0, 0, 0, 0, 0, 0, 0, 0, 0, 0, 0, 0, 0, 0, 0, 2943 / 200,
           0, 0, 0, 0, 2943 / 200, 0, 0, 0, 0, 0, 0])"
  by (simp add: vehicle_dynamics_mb_def mb_rhs_def stub_env_def unit_params_def Let_def
        steering_constraint_def accl_constraints_def)

section \<open>The dynamic single-track model at its switching threshold\<close>

text \<open>
  Claim C3 says that at a longitudinal speed of exactly \<open>0.5\<close> the derivatives of the
  x position, the y position, the steering angle and the speed computed by
  \<open>vehicle_dynamics_st\<close> equal those of \<open>vehicle_dynamics_ks\<close> on the first five state
  components. At \<open>0.5\<close> the test \<open>abs(x[3]) < 0.5\<close> fails, so the dynamic branch runs, and
  its position derivatives turn the heading by the slip angle \<open>x[6]\<close>. With slip angle
  \<open>1\<close> and heading \<open>0\<close> the x derivatives are \<open>cos 1 / 2\<close> and \<open>1 / 2\<close>: the claim as
  stated is false.
\<close>

theorem st_ks_threshold_counterexample:
  "map_sum id (take 4)
     (vehicle_dynamics_st [0, 0, 0, 1 / 2, 0, 0, 1] [0, 0]
        1 1 1 1 1 1 1 1 (-1) 1 (-1) 1 2 1 (-1) 3)
   \<noteq> map_sum id (take 4)
     (vehicle_dynamics_ks (take 5 [0, 0, 0, 1 / 2, 0, 0, 1]) [0, 0]
        1 1 1 1 1 1 1 1 (-1) 1 (-1) 1 2 1 (-1) 3)"
  using cos_one_neq
  by (simp add: vehicle_dynamics_st_def vehicle_dynamics_ks_def accl_constraints_def
        steering_constraint_def)

text \<open>
  Claim C3, amended. At speed exactly \<open>0.5\<close>, with a wheelbase and a yaw inertia that are
  not zero, both models return; the derivatives of the steering angle and of the speed
  are the same constrained controls in both; the position derivatives of the dynamic
  model are \<open>0.5 * cos (slip angle + heading)\<close> and \<open>0.5 * sin (slip angle + heading)\<close>,
  those of the kinematic model \<open>0.5 * cos heading\<close> and \<open>0.5 * sin heading\<close>. So the four
  derivatives agree when the slip angle is zero.
\<close>

theorem st_ks_threshold:
  assumes "lf + lr \<noteq> 0" and "I \<noteq> 0"
    and "accl_constraints (1 / 2) u1 v_switch a_max v_min v_max = Inr a"
  shows "map_sum id (take 4)
           (vehicle_dynamics_st [px, py, delta, 1 / 2, psi, dpsi, beta] [u0, u1]
              mu C_Sf C_Sr lf lr h m I s_min s_max sv_min sv_max v_switch a_max v_min v_max)
         = Inr [1 / 2 * cos (beta + psi), 1 / 2 * sin (beta + psi),
                steering_constraint delta u0 s_min s_max sv_min sv_max, a]
       \<and> map_sum id (take 4)
           (vehicle_dynamics_ks [px, py, delta, 1 / 2, psi] [u0, u1]
              mu C_Sf C_Sr lf lr h m I s_min s_max sv_min sv_max v_switch a_max v_min v_max)
         = Inr [1 / 2 * cos psi, 1 / 2 * sin psi,
                steering_constraint delta u0 s_min s_max sv_min sv_max, a]"
  using assms
  by (simp add: vehicle_dynamics_st_def vehicle_dynamics_ks_def add.commute)

theorem st_ks_threshold_witness:
  "map_sum id (take 4)
     (vehicle_dynamics_st [0, 0, 0, 1 / 2, 0, 0, 0] [0, 0]
        1 1 1 1 1 1 1 1 (-1) 1 (-1) 1 2 1 (-1) 3)
   = Inr [1 / 2 * cos (0 + 0), 1 / 2 * sin (0 + 0), steering_constraint 0 0 (-1) 1 (-1) 1, 0]
   \<and> map_sum id (take 4)
     (vehicle_dynamics_ks [0, 0, 0, 1 / 2, 0] [0, 0]
        1 1 1 1 1 1 1 1 (-1) 1 (-1) 1 2 1 (-1) 3)
   = Inr [1 / 2 * cos 0, 1 / 2 * sin 0, steering_constraint 0 0 (-1) 1 (-1) 1, 0]"
proof -
  have a: "accl_constraints (1 / 2) 0 2 1 (-1) 3 = Inr 0"
    by (simp add: accl_constraints_def)
  have b: "(1::real) + 1 \<noteq> 0" and c: "(1::real) \<noteq> 0" by simp_all
  show ?thesis
    using st_ks_threshold [OF b c a] .
qed

section \<open>Divisions of the dynamic single-track model\<close>

text \<open>
  Claim C4 says that \<open>vehicle_dynamics_st\<close> divides by the longitudinal speed \<open>x[3]\<close>
  only in the branch taken when \<open>|x[3]| \<ge> 0.5\<close>, so that no division by zero occurs when
  \<open>lf + lr\<close>, \<open>m\<close> and \<open>I\<close> are not zero. Before the branch, the function calls
  \<open>accl_constraints\<close> with \<open>x[3]\<close> as velocity, which divides by it whenever it exceeds
  \<open>v_switch\<close>. With \<open>v_switch = -1\<close> and a vehicle at rest the call raises
  \<open>ZeroDivisionError\<close>, all of \<open>lf + lr\<close>, \<open>m\<close>, \<open>I\<close> being \<open>1\<close> or \<open>2\<close>.
\<close>

theorem st_zero_division_counterexample:
  "vehicle_dynamics_st [0, 0, 0, 0, 0, 0, 0] [0, 0] 1 1 1 1 1 1 1 1 (-1) 1 (-1) 1 (-1) 1 (-2) 3
   = Inl ZeroDivisionError"
  by (simp add: vehicle_dynamics_st_def accl_constraints_def steering_constraint_def)

text \<open>
  Claim C4, amended. For a state of seven components and a control of two, the call
  returns a derivative of seven components (so no division by zero occurs) when the
  wheelbase \<open>lf + lr\<close> and the inertia \<open>I\<close> are not zero, the speed is not zero where it
  exceeds \<open>v_switch\<close> (as it is for every \<open>v_switch \<ge> 0\<close>), and, in the branch below the
  threshold, the cosine of the steering angle is not zero. The mass \<open>m\<close> is never a
  divisor. The last hypothesis is one of the real numbers only: the branch divides by
  \<open>lwb * cos(x[2])**2\<close>, and the real cosine has zeros.
\<close>

theorem st_returns:
  assumes "length x = 7" and "length u_init = 2" and "lf + lr \<noteq> 0" and "I \<noteq> 0"
    and "x ! 3 \<le> v_switch \<or> x ! 3 \<noteq> 0"
    and "\<bar>x ! 3\<bar> < 1 / 2 \<longrightarrow> cos (x ! 2) \<noteq> 0"
  shows "\<exists>f. vehicle_dynamics_st x u_init mu C_Sf C_Sr lf lr h m I s_min s_max sv_min sv_max
               v_switch a_max v_min v_max = Inr f \<and> length f = 7"
proof -
  obtain a where a: "accl_constraints (x ! 3) (u_init ! 1) v_switch a_max v_min v_max = Inr a"
    using accl_constraints_returns [OF assms(5)] by blast
  obtain b where b: "accl_constraints (x ! 3) a v_switch a_max v_min v_max = Inr b"
    using accl_constraints_returns [OF assms(5)] by blast
  show ?thesis
  proof (cases "\<bar>x ! 3\<bar> < 1 / 2")
    case True
    with assms a b show ?thesis
      by (simp add: vehicle_dynamics_st_def vehicle_dynamics_ks_def Let_def)
  next
    case False
    then have "x ! 3 \<noteq> 0" by auto
    with False assms a show ?thesis
      by (simp add: vehicle_dynamics_st_def Let_def)
  qed
qed

theorem st_returns_witness:
  "\<exists>f. vehicle_dynamics_st [0, 0, 0, 1, 0, 0, 0] [0, 0] 1 1 1 1 1 1 1 1 (-1) 1 (-1) 1 2 1 (-1) 3
         = Inr f \<and> length f = 7"
  using st_returns [where x = "[0, 0, 0, 1, 0, 0, 0]" and u_init = "[0, 0]" and lf = 1 and lr = 1
      and I = 1 and v_switch = 2 and mu = 1 and C_Sf = 1 and C_Sr = 1 and h = 1 and m = 1
      and s_min = "-1" and s_max = 1 and sv_min = "-1" and sv_max = 1 and a_max = 1
      and v_min = "-1" and v_max = 3]
  by simp

section \<open>The constraint layer\<close>

text \<open>
  Claim C5. \<open>accl_constraints\<close> takes as positive ceiling \<open>a_max\<close> when the speed is at
  or below \<open>v_switch\<close> and \<open>a_max * v_switch / speed\<close> above it. Where that ceiling is
  defined, it returns \<open>0\<close> when the speed is at (or below) its floor \<open>v_min\<close> and the
  desired acceleration is not positive, or at (or above) its ceiling \<open>v_max\<close> and the
  desired acceleration is not negative; otherwise it returns the desired acceleration
  clamped into the interval from \<open>- a_max\<close> to the positive ceiling.
\<close>

theorem accl_constraints_spec:
  assumes "positive_ceiling vel v_switch a_max = Inr pos"
  shows "((vel \<le> v_min \<and> accl \<le> 0) \<or> (vel \<ge> v_max \<and> accl \<ge> 0)
            \<longrightarrow> accl_constraints vel accl v_switch a_max v_min v_max = Inr 0)
       \<and> (\<not> ((vel \<le> v_min \<and> accl \<le> 0) \<or> (vel \<ge> v_max \<and> accl \<ge> 0)) \<and> - a_max \<le> pos
            \<longrightarrow> accl_constraints vel accl v_switch a_max v_min v_max
                  = Inr (clamp (- a_max) pos accl))"
  using assms
  by (auto simp: accl_constraints_def positive_ceiling_def clamp_def fdiv_def
           split: if_splits)

theorem accl_constraints_spec_witness:
  "positive_ceiling 8 4 2 = Inr 1
   \<and> accl_constraints 8 5 4 2 (-5) 20 = Inr (clamp (- 2) 1 5)
   \<and> accl_constraints 20 5 4 2 (-5) 20 = Inr 0"
proof -
  have p1: "positive_ceiling 8 4 2 = Inr 1"
    by (simp add: positive_ceiling_def)
  have p2: "positive_ceiling 20 4 2 = Inr (2 / 5)"
    by (simp add: positive_ceiling_def)
  show ?thesis
    using p1 accl_constraints_spec [OF p1, where v_min = "-5" and accl = 5 and v_max = 20]
      accl_constraints_spec [OF p2, where v_min = "-5" and accl = 5 and v_max = 20]
    by simp
qed

text \<open>
  Claim C6. \<open>steering_constraint\<close> returns \<open>0\<close> when the angle is at (or below) its lower
  bound \<open>s_min\<close> and the desired velocity is not positive, or at (or above) its upper
  bound \<open>s_max\<close> and the desired velocity is not negative; otherwise it returns the
  desired velocity clamped into the interval from \<open>sv_min\<close> to \<open>sv_max\<close>. The function
  is total: it has a value at every input, with nothing that could raise.
\<close>

theorem steering_constraint_spec:
  "((angle \<le> s_min \<and> sv \<le> 0) \<or> (angle \<ge> s_max \<and> sv \<ge> 0)
      \<longrightarrow> steering_constraint angle sv s_min s_max sv_min sv_max = 0)
   \<and> (\<not> ((angle \<le> s_min \<and> sv \<le> 0) \<or> (angle \<ge> s_max \<and> sv \<ge> 0)) \<and> sv_min \<le> sv_max
      \<longrightarrow> steering_constraint angle sv s_min s_max sv_min sv_max = clamp sv_min sv_max sv)"
  by (auto simp: steering_constraint_def clamp_def)

theorem steering_constraint_spec_witness:
  "steering_constraint 1 3 (-1) 1 (-2) 2 = 0
   \<and> steering_constraint 0 3 (-1) 1 (-2) 2 = clamp (-2) 2 3"
  using steering_constraint_spec [where angle = 1 and s_min = "-1" and sv = 3 and s_max = 1
      and sv_min = "-2" and sv_max = 2]
    steering_constraint_spec [where angle = 0 and s_min = "-1" and sv = 3 and s_max = 1
      and sv_min = "-2" and sv_max = 2]
  by simp

text \<open>
  Claim C8 says that both constraint functions are idempotent for every current state
  and all bounds. With a lower bound of the steering velocity that is positive, the
  steering angle at its upper bound and a negative desired velocity, the first
  application returns \<open>sv_min = 1\<close> and the second \<open>0\<close>.
\<close>

theorem constraints_idempotent_counterexample:
  "steering_constraint 1 (steering_constraint 1 (-1) (-1) 1 1 2) (-1) 1 1 2
   \<noteq> steering_constraint 1 (-1) (-1) 1 1 2"
  by (simp add: steering_constraint_def)

text \<open>
  Claim C8, amended. \<open>steering_constraint\<close> is idempotent when the bounds of the steering
  velocity enclose zero (\<open>sv_min \<le> 0 \<le> sv_max\<close>); \<open>accl_constraints\<close> returns and is
  idempotent when \<open>a_max\<close> and \<open>v_switch\<close> are not negative. The current steering angle,
  the current speed and the other bounds are arbitrary.
\<close>

theorem constraints_idempotent:
  "(sv_min \<le> 0 \<and> 0 \<le> sv_max \<longrightarrow>
      steering_constraint angle (steering_constraint angle sv s_min s_max sv_min sv_max)
        s_min s_max sv_min sv_max
      = steering_constraint angle sv s_min s_max sv_min sv_max)
   \<and> (0 \<le> a_max \<and> 0 \<le> v_switch \<longrightarrow>
      (\<exists>r. accl_constraints vel accl v_switch a_max v_min v_max = Inr r
           \<and> accl_constraints vel r v_switch a_max v_min v_max = Inr r))"
proof (intro conjI impI)
  assume "sv_min \<le> 0 \<and> 0 \<le> sv_max"
  then show "steering_constraint angle (steering_constraint angle sv s_min s_max sv_min sv_max)
        s_min s_max sv_min sv_max
      = steering_constraint angle sv s_min s_max sv_min sv_max"
    by (auto simp: steering_constraint_def)
next
  assume h: "0 \<le> a_max \<and> 0 \<le> v_switch"
  then obtain p
    where p: "(if vel > v_switch then fdiv (a_max * v_switch) vel else Inr a_max) = Inr p"
      and "0 \<le> p"
    using pos_limit_nonneg [of a_max v_switch vel] by blast
  with h show "\<exists>r. accl_constraints vel accl v_switch a_max v_min v_max = Inr r
           \<and> accl_constraints vel r v_switch a_max v_min v_max = Inr r"
    by (simp add: accl_constraints_chain [OF p] accl_chain_idem)
qed

theorem constraints_idempotent_witness:
  "steering_constraint 1 (steering_constraint 1 (-3) (-1) 1 (-2) 2) (-1) 1 (-2) 2
     = steering_constraint 1 (-3) (-1) 1 (-2) 2
   \<and> (\<exists>r. accl_constraints 8 5 4 2 (-5) 20 = Inr r \<and> accl_constraints 8 r 4 2 (-5) 20 = Inr r)"
  using constraints_idempotent [where sv_min = "-2" and sv_max = 2 and angle = 1 and sv = "-3"
      and s_min = "-1" and s_max = 1 and a_max = 2 and v_switch = 4 and vel = 8 and accl = 5
      and v_min = "-5" and v_max = 20]
  by simp

section \<open>The kinematic model\<close>

text \<open>
  Claim C7. For a state \<open>[x, y, delta, v, psi]\<close> and a raw control pair,
  \<open>vehicle_dynamics_ks\<close> applies \<open>steering_constraint\<close> to \<open>u[0]\<close> and \<open>accl_constraints\<close>
  to \<open>u[1]\<close> and returns exactly
  \<open>[v * cos psi, v * sin psi, constrained steering velocity, constrained acceleration,
  v / (lf + lr) * tan delta]\<close>, where the acceleration constraint and the quotient by the
  wheelbase are defined.
\<close>

theorem vehicle_dynamics_ks_spec:
  assumes "accl_constraints v u1 v_switch a_max v_min v_max = Inr a"
    and "lf + lr \<noteq> 0"
  shows "vehicle_dynamics_ks [px, py, delta, v, psi] [u0, u1] mu C_Sf C_Sr lf lr h m I
           s_min s_max sv_min sv_max v_switch a_max v_min v_max
         = Inr [v * cos psi, v * sin psi,
                steering_constraint delta u0 s_min s_max sv_min sv_max, a,
                v / (lf + lr) * tan delta]"
  using assms by (simp add: vehicle_dynamics_ks_def)

theorem vehicle_dynamics_ks_spec_witness:
  "vehicle_dynamics_ks [0, 0, 0, 1, 0] [0, 0] 1 1 1 1 1 1 1 1 (-1) 1 (-1) 1 2 1 (-1) 3
   = Inr [1 * cos 0, 1 * sin 0, steering_constraint 0 0 (-1) 1 (-1) 1, 0, 1 / (1 + 1) * tan 0]"
proof -
  have a: "accl_constraints 1 0 2 1 (-1) 3 = Inr 0"
    by (simp add: accl_constraints_def)
  have b: "(1::real) + 1 \<noteq> 0" by simp
  show ?thesis
    using vehicle_dynamics_ks_spec [OF a b] .
qed

section \<open>The controller\<close>

text \<open>
  Claim C9. For every input of \<open>pid\<close> whose selected gain is defined: the steering
  velocity is \<open>max_sv\<close> times the sign of the steering error when the magnitude of that
  error exceeds \<open>1e-4\<close>, and \<open>0\<close> otherwise; the acceleration is the speed error times a
  gain chosen by the sign of the current speed and the sign of the speed error:
  \<open>10 * max_a / max_v\<close> and \<open>10 * max_a / (- min_v)\<close> when moving forward,
  \<open>2 * max_a / max_v\<close> and \<open>2 * max_a / (- min_v)\<close> otherwise.
\<close>

theorem pid_spec:
  assumes "if speed - current_speed > 0 then max_v \<noteq> 0 else min_v \<noteq> 0"
  shows "pid speed steer current_speed current_steer max_sv max_a max_v min_v
         = Inr ((if current_speed > 0
                 then (if speed - current_speed > 0 then 10 * max_a / max_v
                       else 10 * max_a / (- min_v))
                 else (if speed - current_speed > 0 then 2 * max_a / max_v
                       else 2 * max_a / (- min_v))) * (speed - current_speed),
                (if \<bar>steer - current_steer\<bar> > 1 / 10000
                 then max_sv * sgn (steer - current_steer) else 0))"
  unfolding pid_def Let_def pid_sv
  using assms by (simp split: if_splits)

theorem pid_spec_witness:
  "pid 3 (1 / 2) 1 0 4 2 10 (-5) = Inr (10 * 2 / 10 * (3 - 1), 4 * sgn (1 / 2))"
  using pid_spec [where speed = 3 and current_speed = 1 and max_v = 10 and min_v = "-5"
      and steer = "1 / 2" and current_steer = 0 and max_sv = 4 and max_a = 2]
  by simp

text \<open>
  Claim C10. When the current speed is exactly \<open>0\<close>, \<open>pid\<close> takes the branch of the
  reverse direction, since the forward branch asks for a current speed strictly above
  \<open>0\<close>: the acceleration is the target speed times \<open>2 * max_a / max_v\<close> when the target
  speed is positive and times \<open>2 * max_a / (- min_v)\<close> otherwise.
\<close>

theorem pid_stationary:
  assumes "if speed > 0 then max_v \<noteq> 0 else min_v \<noteq> 0"
  shows "map_sum id fst (pid speed steer 0 current_steer max_sv max_a max_v min_v)
         = Inr ((if speed > 0 then 2 * max_a / max_v else 2 * max_a / (- min_v)) * speed)"
  unfolding pid_def Let_def pid_sv
  using assms by (simp split: if_splits)

theorem pid_stationary_witness:
  "map_sum id fst (pid 3 0 0 0 4 2 10 (-5)) = Inr (2 * 2 / 10 * 3)
   \<and> map_sum id fst (pid (-3) 0 0 0 4 2 10 (-5)) = Inr (2 * 2 / (- (-5)) * (-3))"
  using pid_stationary [where speed = 3 and max_v = 10 and min_v = "-5" and steer = 0
      and current_steer = 0 and max_sv = 4 and max_a = 2]
    pid_stationary [where speed = "-3" and max_v = 10 and min_v = "-5" and steer = 0
      and current_steer = 0 and max_sv = 4 and max_a = 2]
  by simp

section \<open>The multi-body model\<close>

text \<open>
  Claim C1 says that a derivative call of any of the three models fails only for
  parameters of a degenerate vehicle, and returns for every state and control otherwise.
  \<open>vehicle_dynamics_mb\<close> sets each negative wheel speed \<open>u_w\<close> to zero and then, at a
  longitudinal speed of magnitude \<open>0.1\<close> or more, divides by it. At the state that is
  zero except for the speed \<open>x[3] = -1\<close> the call fails for every binding of the free
  names, every parameter object and every control; with the bindings and the parameter
  object above, where no mass, inertia or wheel radius is zero, it raises
  \<open>ZeroDivisionError\<close>.
\<close>

theorem mb_reverse_speed_raises:
  "(\<exists>e. vehicle_dynamics_mb env p
           [0, 0, 0, -1, 0, 0, 0, 0, 0, 0, 0, 0, 0, 0, 0, 0, 0, 0, 0, 0, 0, 0, 0, 0, 0, 0, 0, 0, 0]
           uInit params = Inl e)
   \<and> vehicle_dynamics_mb stub_env unit_params
       [0, 0, 0, -1, 0, 0, 0, 0, 0, 0, 0, 0, 0, 0, 0, 0, 0, 0, 0, 0, 0, 0, 0, 0, 0, 0, 0, 0, 0]
       [0, 0] (replicate 78 0) = Inl ZeroDivisionError"
proof
  show "\<exists>e. vehicle_dynamics_mb env p
           [0, 0, 0, -1, 0, 0, 0, 0, 0, 0, 0, 0, 0, 0, 0, 0, 0, 0, 0, 0, 0, 0, 0, 0, 0, 0, 0, 0, 0]
           uInit params = Inl e"
  proof (cases "mb_rhs env p
           [0, 0, 0, -1, 0, 0, 0, 0, 0, 0, 0, 0, 0, 0, 0, 0, 0, 0, 0, 0, 0, 0, 0, 0, 0, 0, 0, 0, 0]
           uInit params")
    case (Inl e)
    then show ?thesis by (simp add: vehicle_dynamics_mb_def)
  next
    case (Inr b)
    with mb_rhs_reverse show ?thesis by blast
  qed
next
  show "vehicle_dynamics_mb stub_env unit_params
       [0, 0, 0, -1, 0, 0, 0, 0, 0, 0, 0, 0, 0, 0, 0, 0, 0, 0, 0, 0, 0, 0, 0, 0, 0, 0, 0, 0, 0]
       [0, 0] (replicate 78 0) = Inl ZeroDivisionError"
    by (simp add: vehicle_dynamics_mb_def mb_rhs_def stub_env_def unit_params_def Let_def
        steering_constraint_def accl_constraints_def)
qed


text \<open>
  Claim C2 says that \<open>vehicle_dynamics_mb\<close> leaves the state array of its caller
  unchanged. The loop at the end of the function assigns \<open>0.0\<close> to \<open>x[iState]\<close> for each
  negative wheel speed. Called on a state at rest whose entry 23 is \<open>-1\<close>, the function
  returns, and the array of the caller then holds \<open>0\<close> at index 23.
\<close>

theorem mb_input_unchanged_counterexample:
  "map_sum id fst
     (vehicle_dynamics_mb stub_env unit_params
        [0, 0, 0, 0, 0, 0, 0, 0, 0, 0, 0, 0, 0, 0, 0, 0, 0, 0, 0, 0, 0, 0, 0, -1, 0, 0, 0, 0, 0]
        [0, 0] (replicate 78 0))
   = Inr [0, 0, 0, 0, 0, 0, 0, 0, 0, 0, 0, 0, 0, 0, 0, 0, 0, 0, 0, 0, 0, 0, 0, 0, 0, 0, 0, 0, 0]"
  by (simp add: vehicle_dynamics_mb_def mb_rhs_def stub_env_def unit_params_def Let_def
        steering_constraint_def accl_constraints_def)


text \<open>
  Claim C2, amended. When \<open>vehicle_dynamics_mb\<close> returns, the state array of the caller
  has its length unchanged, at least 29; each of its entries 23 to 26 that was negative
  holds \<open>0\<close>, and the entry of the returned derivative at the same index is \<open>0\<close>; every
  other entry of the array is unchanged. The derivative has 29 entries. A call that
  raises has not reached the loop and has written nothing.
\<close>

theorem mb_zeroes_input_state:
  assumes "vehicle_dynamics_mb env p x uInit params = Inr (x', f)"
  shows "length x' = length x \<and> 28 < length x \<and> length f = 29
       \<and> (\<forall>i < length x. x' ! i = (if i \<in> {23, 24, 25, 26} \<and> x ! i < 0 then 0 else x ! i))
       \<and> (\<forall>i \<in> {23, 24, 25, 26}. x ! i < 0 \<longrightarrow> f ! i = 0)"
proof -
  from mb_split [OF assms] obtain f27 dy_f dy_r f'
    where rhs: "mb_rhs env p x uInit params = Inr (f27, dy_f, dy_r)"
      and loop: "negative_wheel_spin [23, 24, 25, 26] (x, f27) = (x', f')"
      and f: "f = f' @ [dy_f, dy_r]"
    by blast
  from mb_rhs_length [OF rhs] have len: "length f27 = 27" "28 < length x"
    by simp_all
  from negative_wheel_spin_result [OF loop]
  have l1: "length x' = length x" and l2: "length f' = length f27"
    and xs: "\<forall>j < length x. x' ! j
               = (if j \<in> set [23, 24, 25, 26] \<and> x ! j < 0 then 0 else x ! j)"
    and fs: "\<forall>j < length f27. f' ! j
               = (if j \<in> set [23, 24, 25, 26] \<and> x ! j < 0 then 0 else f27 ! j)"
    by blast+
  from xs have "\<forall>i < length x. x' ! i
                  = (if i \<in> {23, 24, 25, 26} \<and> x ! i < 0 then 0 else x ! i)"
    by simp
  moreover from fs len l2 f have "\<forall>i \<in> {23, 24, 25, 26}. x ! i < 0 \<longrightarrow> f ! i = 0"
    by (auto simp: nth_append)
  ultimately show ?thesis
    using l1 l2 len f by simp
qed

theorem mb_zeroes_input_state_witness:
  "vehicle_dynamics_mb stub_env unit_params
     [0, 0, 0, 0, 0, 0, 0, 0, 0, 0, 0, 0, 0, 0, 0, 0, 0, 0, 0, 0, 0, 0, 0, -1, 0, 0, 0, 0, 0]
     [0, 0] (replicate 78 0)
   = Inr ([0, 0, 0, 0, 0, 0, 0, 0, 0, 0, 0, 0, 0, 0, 0, 0, 0, 0, 0, 0, 0, 0, 0, 0, 0, 0, 0, 0, 0],
          [0, 0, 0, 0, 0, 0, 0, 0, 0, 0, 0, 0, 0, 0, 0, 0, 0, 2943 / 200,
           0, 0, 0, 0, 2943 / 200, 0, 0, 0, 0, 0, 0])
   \<and> [0, 0, 0, 0, 0, 0, 0, 0, 0, 0, 0, 0, 0, 0, 0, 0, 0, 0, 0, 0, 0, 0, 0, 0, 0, 0, 0, 0, 0::real]
       ! 23 = 0
   \<and> [0, 0, 0, 0, 0, 0, 0, 0, 0, 0, 0, 0, 0, 0, 0, 0, 0, 2943 / 200,
      0, 0, 0, 0, 2943 / 200, 0, 0, 0, 0, 0, 0::real] ! 23 = 0"
  using mb_stub_run mb_zeroes_input_state [OF mb_stub_run]
  by simp


end
